theory Spec2Isabelle
  imports Main
begin

section \<open>Data model\<close>

text \<open>
  The authentication service of \<^verbatim>\<open>src/src/video/video.service.ts\<close> (the second
  \<^verbatim>\<open>AuthService\<close> class, lines 282 to 631) works on TypeORM entities, JSON web tokens
  and NestJS exceptions. Entities are records, enumerations are datatypes, an exception is
  a value of type \<open>error\<close> on the left of a sum, and the database tables are lists of rows
  that every operation takes and returns.
\<close>

text \<open>
  Modelled from the spec: the enumerations \<^verbatim>\<open>src/enums/role.enum\<close> and
  \<^verbatim>\<open>src/enums/status.enum\<close> are not among the sources. The spec lists the roles
  User and Admin and the states Unverified, Active and Inactive; the code compares the
  status with \<^verbatim>\<open>'inactive'\<close>, \<^verbatim>\<open>'unverified'\<close> and \<^verbatim>\<open>'active'\<close>.
\<close>

datatype role = User | Admin

datatype status = Unverified | Active | Inactive

subsection \<open>JSON web tokens\<close>

text \<open>
  A token is a string in the source. The libraries \<^verbatim>\<open>jsonwebtoken\<close> and
  \<^verbatim>\<open>@nestjs/jwt\<close> are modelled symbolically: a well-formed token is its claims
  together with the key that made its signature, anything else is an opaque string.
  Two tokens are the same string exactly when they have the same claims and signature.
  The claims are the fields the service writes or reads: \<^verbatim>\<open>sub\<close> and \<^verbatim>\<open>role\<close>
  (session tokens), \<^verbatim>\<open>email\<close> (verification tokens), \<^verbatim>\<open>id\<close> (reset tokens) and
  \<^verbatim>\<open>exp\<close>, in seconds. A field that is absent reads as \<^verbatim>\<open>undefined\<close>, here \<open>None\<close>.
\<close>

record claims =
  c_sub :: "string option"
  c_role :: "role option"
  c_email :: "string option"
  c_id :: "string option"
  c_exp :: "nat option"

datatype token = Jwt claims string | Opaque string

text \<open>
  Time is the number of milliseconds of \<^verbatim>\<open>Date.now()\<close>, a parameter \<open>now\<close> of every
  operation. \<^verbatim>\<open>jwt.sign\<close> with \<^verbatim>\<open>expiresIn\<close> sets \<^verbatim>\<open>exp\<close> to the current second
  plus the lifetime.
\<close>

definition jwt_sign :: "claims \<Rightarrow> string \<Rightarrow> nat \<Rightarrow> nat \<Rightarrow> token" where
  "jwt_sign payload secret ttl now = Jwt (payload\<lparr>c_exp := Some (now div 1000 + ttl)\<rparr>) secret"

text \<open>
  \<^verbatim>\<open>jwt.verify\<close> throws unless the signature was made with the secret and the current
  second is before \<^verbatim>\<open>exp\<close> (when the token has one); \<open>None\<close> is the throw.
\<close>

fun jwt_verify :: "token \<Rightarrow> string \<Rightarrow> nat \<Rightarrow> claims option" where
  "jwt_verify (Opaque s) secret now = None"
| "jwt_verify (Jwt c k) secret now =
     (if k \<noteq> secret then None
      else case c_exp c of
             None \<Rightarrow> Some c
           | Some e \<Rightarrow> if e \<le> now div 1000 then None else Some c)"

text \<open>
  \<^verbatim>\<open>jwtService.decode\<close> reads the claims and checks neither signature nor expiry; it
  returns \<^verbatim>\<open>null\<close> for a missing or malformed token.
\<close>

fun jwt_decode :: "token option \<Rightarrow> claims option" where
  "jwt_decode None = None"
| "jwt_decode (Some (Opaque s)) = None"
| "jwt_decode (Some (Jwt c k)) = Some c"

subsection \<open>Entities\<close>

record profile =
  business_name :: string
  website :: string
  state_region :: string
  country :: string
  utilization_purpose :: string
  interests :: "string list"

record user =
  uid :: string
  email :: string
  password :: "string option"
  role :: role
  status :: status
  email_verification_token :: "token option"
  reset_pass_token :: "token option"
  reset_pass_token_expiry :: "nat option"
  last_login :: "nat option"
  email_consent :: bool
  sms_consent :: bool
  profile :: "profile option"

record login_event =
  userId :: string
  timestamp :: nat
  ipAddress :: "string option"
  userAgent :: "string option"
  deviceInfo :: "string option"
  loginMethod :: string
  successful :: bool
  failureReason :: "string option"

text \<open>The part of the HTTP request that \<^verbatim>\<open>recordLoginEvent\<close> reads.\<close>

record request =
  ip :: "string option"
  headers :: "(string \<times> string) list"

subsection \<open>Data transfer objects, responses and errors\<close>

record profile_dto =
  businessName :: string
  dto_website :: string
  stateRegion :: string
  dto_country :: string
  utilizationPurpose :: string
  dto_interests :: "string list"

record signup_dto =
  su_email :: string
  su_password :: string
  emailTermsConsent :: bool
  smsConsent :: bool
  su_profile :: profile_dto

record cred_login_dto =
  li_email :: string
  li_password :: string

record google_login_dto =
  g_email :: string

text \<open>
  \<^verbatim>\<open>successHandler(message, data)\<close> builds the response; the payloads are the four
  shapes the service passes to it.
\<close>

datatype data =
    UserData user
  | LoginData token token user
  | EmailData string
  | NoData

datatype response = Success string data

text \<open>
  The exceptions of the service. \<open>BadRequestOf e\<close> is \<^verbatim>\<open>new BadRequestException(err)\<close>,
  a bad-request exception that carries the caught one; \<open>JwtError\<close> is what
  \<^verbatim>\<open>jwt.verify\<close> throws; \<open>CollaboratorFailure\<close> is an exception of the email service;
  \<open>RuntimeError\<close> is a plain JavaScript \<^verbatim>\<open>Error\<close> with its message, which no handler
  of the service catches.
\<close>

datatype error =
    BadRequest string
  | NotFound string
  | Forbidden string
  | BadRequestOf error
  | JwtError
  | CollaboratorFailure string
  | RuntimeError string

subsection \<open>State and environment\<close>

text \<open>
  The tables of users and login events, the mails handed to the email service and the
  contacts created in the CRM.
\<close>

record state =
  users :: "user list"
  login_events :: "login_event list"
  outbox :: "(string \<times> token) list"
  contacts :: "string list"

text \<open>
  What the service is configured with and injected with: the three signing secrets, the
  lifetimes of session tokens in seconds, the password hasher with the comparison of a
  plaintext with a stored hash, and whether a call to a collaborator goes through
  (\<open>False\<close>: the call throws).
\<close>

record env =
  access_secret :: string
  refresh_secret :: string
  jwt_secret :: string
  access_ttl :: nat
  refresh_ttl :: nat
  hashPassword :: "string \<Rightarrow> string"
  compare :: "string \<Rightarrow> string \<Rightarrow> bool"
  sendVerificationEmail_ok :: "string \<Rightarrow> token \<Rightarrow> bool"
  sendPasswordResetEmail_ok :: "string \<Rightarrow> token \<Rightarrow> bool"
  createContact_ok :: "signup_dto \<Rightarrow> bool"

section \<open>The repositories\<close>

text \<open>
  A TypeORM \<^verbatim>\<open>where\<close> object is a conjunction of equalities; a criterion whose value
  is \<^verbatim>\<open>undefined\<close> is left out of the query (the service uses \<^verbatim>\<open>findOneBy\<close>, which
  exists from TypeORM 0.3 on, where this is the behaviour).
\<close>

definition matches :: "'a option \<Rightarrow> 'a \<Rightarrow> bool" where
  "matches criterion v = (case criterion of None \<Rightarrow> True | Some k \<Rightarrow> v = k)"

text \<open>
  Modelled from the spec: \<^verbatim>\<open>UsersService.findUserByEmail\<close> is not among the sources.
  The spec gives it as the lookup of the users with an email; the service reads its
  result as an array and takes the first element.
\<close>

definition findUserByEmail :: "string option \<Rightarrow> user list \<Rightarrow> user list" where
  "findUserByEmail e us = filter (\<lambda>u. matches e (email u)) us"

text \<open>\<^verbatim>\<open>userRepo.findOneBy({ id })\<close>.\<close>

definition findOneBy_id :: "string option \<Rightarrow> user list \<Rightarrow> user option" where
  "findOneBy_id i us = find (\<lambda>u. matches i (uid u)) us"

text \<open>\<^verbatim>\<open>userRepo.findOne({ where: { email } })\<close>.\<close>

definition findOne_email :: "string \<Rightarrow> user list \<Rightarrow> user option" where
  "findOne_email e us = find (\<lambda>u. email u = e) us"

text \<open>\<^verbatim>\<open>userRepo.findOne({ where: { reset_pass_token: token, id } })\<close>.\<close>

definition findOne_reset :: "token \<Rightarrow> string option \<Rightarrow> user list \<Rightarrow> user option" where
  "findOne_reset tok i us = find (\<lambda>u. reset_pass_token u = Some tok \<and> matches i (uid u)) us"

text \<open>
  \<^verbatim>\<open>userRepo.save\<close> of an entity that was loaded from the table writes the row with
  its primary key; of a new entity it inserts a row under a generated key, the parameter
  \<open>new_id\<close>, and returns the entity with it.
\<close>

definition save_existing :: "user \<Rightarrow> user list \<Rightarrow> user list" where
  "save_existing u us = map (\<lambda>r. if uid r = uid u then u else r) us"

definition save_new :: "string \<Rightarrow> user \<Rightarrow> user list \<Rightarrow> user \<times> user list" where
  "save_new new_id u us = (let u' = u\<lparr>uid := new_id\<rparr> in (u', us @ [u']))"

text \<open>\<^verbatim>\<open>userRepo.update(id, partial)\<close>.\<close>

definition update_fields :: "string \<Rightarrow> (user \<Rightarrow> user) \<Rightarrow> user list \<Rightarrow> user list" where
  "update_fields i f us = map (\<lambda>r. if uid r = i then f r else r) us"

text \<open>
  Modelled from the spec: the entity \<^verbatim>\<open>src/entities/users.entity\<close> is not among the
  sources, and neither \<^verbatim>\<open>signUp\<close> nor \<^verbatim>\<open>googleLogin\<close> sets a status, so a new row
  gets the default of the column. The spec has a user persisted by signup in the state
  Unverified.
\<close>

definition default_status :: status where
  "default_status = Unverified"

section \<open>The authentication service\<close>

definition getTokens :: "env \<Rightarrow> nat \<Rightarrow> string \<Rightarrow> role \<Rightarrow> token \<times> token" where
  "getTokens env now user_id r =
     (let payload = \<lparr>c_sub = Some user_id, c_role = Some r, c_email = None, c_id = None,
                     c_exp = None\<rparr>
      in (jwt_sign payload (access_secret env) (access_ttl env) now,
          jwt_sign payload (refresh_secret env) (refresh_ttl env) now))"

definition generateEmailToken :: "env \<Rightarrow> nat \<Rightarrow> string \<Rightarrow> token" where
  "generateEmailToken env now e =
     jwt_sign \<lparr>c_sub = None, c_role = None, c_email = Some e, c_id = None, c_exp = None\<rparr>
       (jwt_secret env) 86400 now"

definition verifyEmailToken :: "env \<Rightarrow> nat \<Rightarrow> token \<Rightarrow> claims option" where
  "verifyEmailToken env now tok = jwt_verify tok (jwt_secret env) now"

definition recordLoginEvent ::
  "user \<Rightarrow> bool \<Rightarrow> string \<Rightarrow> string option \<Rightarrow> request option \<Rightarrow> nat \<Rightarrow> state \<Rightarrow> state" where
  "recordLoginEvent u ok method reason req now st =
     (let loginEvent =
        \<lparr>userId = uid u,
         timestamp = now,
         ipAddress = (case req of None \<Rightarrow> None | Some r \<Rightarrow> ip r),
         userAgent = (case req of None \<Rightarrow> None | Some r \<Rightarrow> map_of (headers r) ''user-agent''),
         deviceInfo = (case req of None \<Rightarrow> None | Some r \<Rightarrow> map_of (headers r) ''sec-ch-ua''),
         loginMethod = method,
         successful = ok,
         failureReason = reason\<rparr>
      in st\<lparr>login_events := login_events st @ [loginEvent]\<rparr>)"

text \<open>
  \<^verbatim>\<open>bcrypt.compare\<close> of \<^verbatim>\<open>bcryptjs\<close> answers with a truth value when both
  arguments are strings, and rejects with \<^verbatim>\<open>Error("Illegal arguments: string, object")\<close>
  when the stored hash is \<^verbatim>\<open>null\<close>, as it is for a user created by
  \<^verbatim>\<open>googleLogin\<close>. \<^verbatim>\<open>login\<close> awaits it outside any \<^verbatim>\<open>try\<close>, so the rejection
  ends the login there.
\<close>

definition bcrypt_compare :: "env \<Rightarrow> string \<Rightarrow> string option \<Rightarrow> error + bool" where
  "bcrypt_compare env s hash =
     (case hash of
        None \<Rightarrow> Inl (RuntimeError ''Illegal arguments: string, object'')
      | Some h \<Rightarrow> Inr (compare env s h))"

definition login ::
  "env \<Rightarrow> nat \<Rightarrow> cred_login_dto \<Rightarrow> request option \<Rightarrow> state \<Rightarrow> (error + response) \<times> state" where
  "login env now loginInfo req st =
     (case findUserByEmail (Some (li_email loginInfo)) (users st) of
        [] \<Rightarrow> (Inl (NotFound ''User with this email does not exist''), st)
      | userInfo # _ \<Rightarrow>
          if status userInfo = Inactive then
            (Inl (BadRequest ''Account Restricted!''),
             recordLoginEvent userInfo False ''credentials'' (Some ''Account Restricted'') req now st)
          else if status userInfo = Unverified then
            (Inr (Success ''Account not verified'' (EmailData (email userInfo))),
             recordLoginEvent userInfo False ''credentials'' (Some ''Account not verified'') req now st)
          else
            (case bcrypt_compare env (li_password loginInfo) (password userInfo) of
               Inl err \<Rightarrow> (Inl err, st)
             | Inr isPasswordValid \<Rightarrow>
                 if \<not> isPasswordValid then
                   (Inl (BadRequest ''Invalid password''),
                    recordLoginEvent userInfo False ''credentials'' (Some ''Invalid password'')
                      req now st)
                 else
                   (let userInfo' = userInfo\<lparr>last_login := Some now\<rparr>;
                        st1 = st\<lparr>users := save_existing userInfo' (users st)\<rparr>;
                        st2 = recordLoginEvent userInfo' True ''credentials'' None req now st1;
                        (accessToken, refreshToken) =
                          getTokens env now (uid userInfo') (role userInfo')
                    in (Inr (Success ''Login successful''
                               (LoginData accessToken refreshToken
                                  (userInfo'\<lparr>password := None\<rparr>))),
                        st2))))"

text \<open>
  \<^verbatim>\<open>signUp\<close>: the verification mail is awaited before \<^verbatim>\<open>userRepo.save\<close>, so its
  exception leaves the operation before anything is stored; the call to the CRM is inside
  a \<^verbatim>\<open>try\<close> whose \<^verbatim>\<open>catch\<close> only logs. The entity returned is the saved one, after
  \<^verbatim>\<open>delete newUser.password\<close>.
\<close>

definition signUp ::
  "env \<Rightarrow> nat \<Rightarrow> string \<Rightarrow> signup_dto \<Rightarrow> role \<Rightarrow> state \<Rightarrow> (error + response) \<times> state" where
  "signUp env now new_id signupUserDto userRole st =
     (if findUserByEmail (Some (su_email signupUserDto)) (users st) \<noteq> [] then
        (Inl (BadRequest ''User with this email already exists''), st)
      else
        (let encPassword = hashPassword env (su_password signupUserDto);
             emailToken = generateEmailToken env now (su_email signupUserDto);
             newProfile =
               \<lparr>business_name = businessName (su_profile signupUserDto),
                website = dto_website (su_profile signupUserDto),
                state_region = stateRegion (su_profile signupUserDto),
                country = dto_country (su_profile signupUserDto),
                utilization_purpose = utilizationPurpose (su_profile signupUserDto),
                interests = dto_interests (su_profile signupUserDto)\<rparr>;
             newUser =
               \<lparr>uid = [],
                email = su_email signupUserDto,
                password = Some encPassword,
                role = userRole,
                status = default_status,
                email_verification_token = Some emailToken,
                reset_pass_token = None,
                reset_pass_token_expiry = None,
                last_login = None,
                email_consent = emailTermsConsent signupUserDto,
                sms_consent = smsConsent signupUserDto,
                profile = Some newProfile\<rparr>
         in if \<not> sendVerificationEmail_ok env (su_email signupUserDto) emailToken then
              (Inl (CollaboratorFailure ''sendVerificationEmail''), st)
            else
              (let st1 = st\<lparr>outbox := outbox st @ [(su_email signupUserDto, emailToken)]\<rparr>;
                   (createdUser, us) = save_new new_id newUser (users st1);
                   st2 = st1\<lparr>users := us\<rparr>;
                   st3 = (if createContact_ok env signupUserDto
                          then st2\<lparr>contacts := contacts st2 @ [su_email signupUserDto]\<rparr>
                          else st2)
               in (Inr (Success ''User created successfully''
                          (UserData (createdUser\<lparr>password := None\<rparr>))),
                   st3))))"

definition resendVerificationEmail ::
  "env \<Rightarrow> nat \<Rightarrow> string \<Rightarrow> state \<Rightarrow> (error + response) \<times> state" where
  "resendVerificationEmail env now e st =
     (case findUserByEmail (Some e) (users st) of
        [] \<Rightarrow> (Inl (NotFound ''User with this email does not exist''), st)
      | userInfo # _ \<Rightarrow>
          if status userInfo = Active then
            (Inl (BadRequest ''Account already verified''), st)
          else
            (let emailToken = generateEmailToken env now e
             in if \<not> sendVerificationEmail_ok env e emailToken then
                  (Inl (CollaboratorFailure ''sendVerificationEmail''), st)
                else
                  (Inr (Success ''Verification email sent successfully'' NoData),
                   st\<lparr>outbox := outbox st @ [(e, emailToken)],
                      users := update_fields (uid userInfo)
                                 (\<lambda>u. u\<lparr>email_verification_token := Some emailToken\<rparr>)
                                 (users st)\<rparr>)))"

text \<open>
  \<^verbatim>\<open>verifyEmail\<close> is a \<^verbatim>\<open>try\<close> block and a \<^verbatim>\<open>catch\<close> that replaces whatever was
  thrown. \<open>verifyEmail_try\<close> is the block, with the exceptions it throws.
\<close>

definition verifyEmail_try ::
  "env \<Rightarrow> nat \<Rightarrow> token \<Rightarrow> state \<Rightarrow> (error + response) \<times> state" where
  "verifyEmail_try env now tok st =
     (case verifyEmailToken env now tok of
        None \<Rightarrow> (Inl JwtError, st)
      | Some payload \<Rightarrow>
          (case findUserByEmail (c_email payload) (users st) of
             [] \<Rightarrow> (Inl (NotFound ''User with this email does not exist''), st)
           | userInfo # _ \<Rightarrow>
               (Inr (Success ''Email verified successfully'' NoData),
                st\<lparr>users := update_fields (uid userInfo) (\<lambda>u. u\<lparr>status := Active\<rparr>)
                               (users st)\<rparr>)))"

definition verifyEmail ::
  "env \<Rightarrow> nat \<Rightarrow> token \<Rightarrow> state \<Rightarrow> (error + response) \<times> state" where
  "verifyEmail env now tok st =
     (case verifyEmail_try env now tok st of
        (Inl err, st') \<Rightarrow>
          (Inl (BadRequest ''Invalid or expired email verification token.''), st')
      | (Inr r, st') \<Rightarrow> (Inr r, st'))"

text \<open>
  \<^verbatim>\<open>refreshTokens\<close> has the same shape; its \<^verbatim>\<open>catch\<close> wraps the exception in a
  bad-request exception. The expiry test is \<^verbatim>\<open>expires < new Date().getTime() / 1000\<close>,
  a comparison of the seconds of \<^verbatim>\<open>exp\<close> with a fraction, which is false when the
  token has no \<^verbatim>\<open>exp\<close>.
\<close>

definition refresh_expired :: "claims \<Rightarrow> nat \<Rightarrow> bool" where
  "refresh_expired c now = (case c_exp c of None \<Rightarrow> False | Some e \<Rightarrow> e * 1000 < now)"

definition refreshTokens_try ::
  "env \<Rightarrow> nat \<Rightarrow> token option \<Rightarrow> state \<Rightarrow> (error + response) \<times> state" where
  "refreshTokens_try env now tok st =
     (case jwt_decode tok of
        None \<Rightarrow> (Inl (Forbidden ''Access Denied''), st)
      | Some decodedJwtRefreshToken \<Rightarrow>
          if refresh_expired decodedJwtRefreshToken now then
            (Inl (Forbidden ''Access Denied''), st)
          else
            (case findOneBy_id (c_sub decodedJwtRefreshToken) (users st) of
               None \<Rightarrow> (Inl (Forbidden ''Access Denied''), st)
             | Some userInfo \<Rightarrow>
                 (let (accessToken, refreshToken) =
                        getTokens env now (uid userInfo) (role userInfo)
                  in (Inr (Success ''Login successful''
                             (LoginData accessToken refreshToken (userInfo\<lparr>password := None\<rparr>))),
                      st))))"

definition refreshTokens ::
  "env \<Rightarrow> nat \<Rightarrow> token option \<Rightarrow> state \<Rightarrow> (error + response) \<times> state" where
  "refreshTokens env now tok st =
     (case refreshTokens_try env now tok st of
        (Inl err, st') \<Rightarrow> (Inl (BadRequestOf err), st')
      | (Inr r, st') \<Rightarrow> (Inr r, st'))"

text \<open>
  \<^verbatim>\<open>googleLogin\<close> creates the user when the email is unknown; it does not read the
  status.
\<close>

definition googleLogin ::
  "env \<Rightarrow> nat \<Rightarrow> string \<Rightarrow> google_login_dto \<Rightarrow> request option \<Rightarrow> state
     \<Rightarrow> (error + response) \<times> state" where
  "googleLogin env now new_id googleLoginDto req st =
     (let (userInfo, us) =
            (case findUserByEmail (Some (g_email googleLoginDto)) (users st) of
               [] \<Rightarrow>
                 save_new new_id
                   \<lparr>uid = [],
                    email = g_email googleLoginDto,
                    password = None,
                    role = User,
                    status = default_status,
                    email_verification_token = None,
                    reset_pass_token = None,
                    reset_pass_token_expiry = None,
                    last_login = None,
                    email_consent = False,
                    sms_consent = False,
                    profile = None\<rparr>
                   (users st)
             | found # _ \<Rightarrow> (found, users st));
          userInfo' = userInfo\<lparr>last_login := Some now\<rparr>;
          st1 = st\<lparr>users := save_existing userInfo' us\<rparr>;
          st2 = recordLoginEvent userInfo' True ''google'' None req now st1;
          (accessToken, refreshToken) = getTokens env now (uid userInfo') (role userInfo')
      in (Inr (Success ''Login successful''
                 (LoginData accessToken refreshToken (userInfo'\<lparr>password := None\<rparr>))),
          st2))"

text \<open>
  \<^verbatim>\<open>forgotPassword\<close> stores the token and an expiry one hour ahead, in milliseconds,
  before it sends the mail.
\<close>

definition forgotPassword ::
  "env \<Rightarrow> nat \<Rightarrow> string \<Rightarrow> state \<Rightarrow> (error + response) \<times> state" where
  "forgotPassword env now e st =
     (case findOne_email e (users st) of
        None \<Rightarrow> (Inl (NotFound ''User not found.''), st)
      | Some u \<Rightarrow>
          (let tok = jwt_sign \<lparr>c_sub = None, c_role = None, c_email = None,
                               c_id = Some (uid u), c_exp = None\<rparr>
                       (jwt_secret env) 3600 now;
               u' = u\<lparr>reset_pass_token := Some tok,
                      reset_pass_token_expiry := Some (now + 60 * 60 * 1000)\<rparr>;
               st1 = st\<lparr>users := save_existing u' (users st)\<rparr>
           in if \<not> sendPasswordResetEmail_ok env e tok then
                (Inl (CollaboratorFailure ''sendPasswordResetEmail''), st1)
              else
                (Inr (Success ''Password reset link sent to your email.'' NoData),
                 st1\<lparr>outbox := outbox st1 @ [(e, tok)]\<rparr>)))"

text \<open>
  The test \<^verbatim>\<open>user.reset_pass_token_expiry < new Date()\<close> compares two numbers of
  milliseconds; a \<^verbatim>\<open>null\<close> expiry converts to 0.
\<close>

definition expiry_passed :: "nat option \<Rightarrow> nat \<Rightarrow> bool" where
  "expiry_passed expiry now = ((case expiry of None \<Rightarrow> 0 | Some t \<Rightarrow> t) < now)"

definition resetPassword ::
  "env \<Rightarrow> nat \<Rightarrow> token \<Rightarrow> string \<Rightarrow> state \<Rightarrow> (error + response) \<times> state" where
  "resetPassword env now tok newPassword st =
     (case jwt_verify tok (jwt_secret env) now of
        None \<Rightarrow> (Inl (BadRequest ''Invalid or expired token.''), st)
      | Some decoded \<Rightarrow>
          (case findOne_reset tok (c_id decoded) (users st) of
             None \<Rightarrow> (Inl (BadRequest ''Invalid or expired token.''), st)
           | Some u \<Rightarrow>
               if expiry_passed (reset_pass_token_expiry u) now then
                 (Inl (BadRequest ''Invalid or expired token.''), st)
               else
                 (let encPassword = hashPassword env newPassword;
                      u' = u\<lparr>password := Some encPassword,
                             reset_pass_token := None,
                             reset_pass_token_expiry := None\<rparr>
                  in (Inr (Success ''Password reset successful.'' NoData),
                      st\<lparr>users := save_existing u' (users st)\<rparr>))))"

text \<open>The user that a response carries, if it carries one.\<close>

fun returned_user :: "error + response \<Rightarrow> user option" where
  "returned_user (Inr (Success m (UserData u))) = Some u"
| "returned_user (Inr (Success m (LoginData a r u))) = Some u"
| "returned_user other = None"

section \<open>Concrete scenarios\<close>

text \<open>
  An environment with a toy password hasher and collaborators that answer, a user, and the
  tokens and requests of the scenarios evaluated below.
\<close>

definition demo_env :: env where
  "demo_env =
     \<lparr>access_secret = ''access-secret'',
      refresh_secret = ''refresh-secret'',
      jwt_secret = ''jwt-secret'',
      access_ttl = 900,
      refresh_ttl = 604800,
      hashPassword = (\<lambda>p. ''hash:'' @ p),
      compare = (\<lambda>p h. h = ''hash:'' @ p),
      sendVerificationEmail_ok = (\<lambda>e t. True),
      sendPasswordResetEmail_ok = (\<lambda>e t. True),
      createContact_ok = (\<lambda>d. True)\<rparr>"

definition alice :: user where
  "alice =
     \<lparr>uid = ''u1'',
      email = ''a@x.com'',
      password = Some ''hash:P@ssw0rd'',
      role = User,
      status = Unverified,
      email_verification_token = None,
      reset_pass_token = None,
      reset_pass_token_expiry = None,
      last_login = None,
      email_consent = True,
      sms_consent = False,
      profile = None\<rparr>"

definition demo_state :: "user list \<Rightarrow> state" where
  "demo_state us = \<lparr>users = us, login_events = [], outbox = [], contacts = []\<rparr>"

definition alice_login :: cred_login_dto where
  "alice_login = \<lparr>li_email = ''a@x.com'', li_password = ''P@ssw0rd''\<rparr>"

definition demo_signup :: signup_dto where
  "demo_signup =
     \<lparr>su_email = ''b@x.com'',
      su_password = ''P@ssw0rd'',
      emailTermsConsent = True,
      smsConsent = False,
      su_profile =
        \<lparr>businessName = ''Acme'', dto_website = ''acme.example'', stateRegion = ''CA'',
         dto_country = ''US'', utilizationPurpose = ''education'', dto_interests = []\<rparr>\<rparr>"

definition session_claims :: "nat option \<Rightarrow> claims" where
  "session_claims e =
     \<lparr>c_sub = Some ''u1'', c_role = Some User, c_email = None, c_id = None, c_exp = e\<rparr>"

text \<open>A refresh token for alice signed with a key that is not the service's.\<close>

definition forged_refresh_token :: token where
  "forged_refresh_token = Jwt (session_claims (Some 4000000000)) ''attacker-key''"

text \<open>A refresh token of the service that expired at second 4.\<close>

definition expired_refresh_token :: token where
  "expired_refresh_token = Jwt (session_claims (Some 4)) ''refresh-secret''"

definition old_email_token :: token where
  "old_email_token = generateEmailToken demo_env 1000 ''a@x.com''"

definition stranger_email_token :: token where
  "stranger_email_token = generateEmailToken demo_env 1000 ''nobody@x.com''"

definition reset_token :: token where
  "reset_token =
     jwt_sign \<lparr>c_sub = None, c_role = None, c_email = None, c_id = Some ''u1'', c_exp = None\<rparr>
       ''jwt-secret'' 3600 1000"

definition reset_state :: state where
  "reset_state = snd (forgotPassword demo_env 1000 ''a@x.com'' (demo_state [alice]))"

text \<open>
  A user who arrives through \<^verbatim>\<open>googleLogin\<close>, asks for a verification mail and
  verifies the email: an Active user without a password hash.
\<close>

definition federated_state :: state where
  "federated_state =
     snd (verifyEmail demo_env 3000 (generateEmailToken demo_env 2000 ''g@x.com'')
       (snd (resendVerificationEmail demo_env 2000 ''g@x.com''
          (snd (googleLogin demo_env 1000 ''u9'' \<lparr>g_email = ''g@x.com''\<rparr> None
             (demo_state []))))))"

definition federated_login :: cred_login_dto where
  "federated_login = \<lparr>li_email = ''g@x.com'', li_password = ''P@ssw0rd''\<rparr>"

section \<open>Auxiliary facts\<close>

lemmas service_defs =
  jwt_sign_def matches_def findUserByEmail_def findOneBy_id_def findOne_email_def
  findOne_reset_def save_existing_def save_new_def update_fields_def default_status_def
  getTokens_def generateEmailToken_def verifyEmailToken_def recordLoginEvent_def
  bcrypt_compare_def login_def
  signUp_def resendVerificationEmail_def verifyEmail_try_def verifyEmail_def refresh_expired_def
  refreshTokens_try_def refreshTokens_def googleLogin_def forgotPassword_def expiry_passed_def
  resetPassword_def

lemmas demo_defs =
  demo_env_def alice_def demo_state_def alice_login_def demo_signup_def session_claims_def
  forged_refresh_token_def expired_refresh_token_def old_email_token_def
  stranger_email_token_def reset_token_def reset_state_def federated_state_def
  federated_login_def

lemma recordLoginEvent_events:
  "login_events (recordLoginEvent u ok m r req now st) =
     login_events st @
       [\<lparr>userId = uid u, timestamp = now,
         ipAddress = (case req of None \<Rightarrow> None | Some r \<Rightarrow> ip r),
         userAgent = (case req of None \<Rightarrow> None | Some r \<Rightarrow> map_of (headers r) ''user-agent''),
         deviceInfo = (case req of None \<Rightarrow> None | Some r \<Rightarrow> map_of (headers r) ''sec-ch-ua''),
         loginMethod = m, successful = ok, failureReason = r\<rparr>]"
  by (simp add: recordLoginEvent_def)

lemma recordLoginEvent_users: "users (recordLoginEvent u ok m r req now st) = users st"
  by (simp add: recordLoginEvent_def)

lemma jwt_verify_Some: "jwt_verify tok secret now = Some d \<Longrightarrow> tok = Jwt d secret"
  by (cases tok) (auto split: if_splits option.splits)

lemma findOne_reset_Some:
  "findOne_reset tok i us = Some u \<Longrightarrow>
     u \<in> set us \<and> reset_pass_token u = Some tok \<and> matches i (uid u)"
  by (auto simp: findOne_reset_def find_Some_iff)

lemma generateEmailToken_valid:
  "verifyEmailToken env now (generateEmailToken env now e) =
     Some \<lparr>c_sub = None, c_role = None, c_email = Some e, c_id = None,
           c_exp = Some (now div 1000 + 86400)\<rparr>"
  by (simp add: verifyEmailToken_def generateEmailToken_def jwt_sign_def)

text \<open>
  The table of login events only grows: \<^verbatim>\<open>login\<close> and \<^verbatim>\<open>googleLogin\<close> append to
  it, and no other operation touches it.
\<close>

lemma login_events_append_only:
  "\<exists>evs. login_events (snd (login env now loginInfo req st)) = login_events st @ evs"
  "\<exists>evs. login_events (snd (googleLogin env now new_id googleLoginDto req st)) = login_events st @ evs"
  "login_events (snd (signUp env now new_id signupUserDto userRole st)) = login_events st"
  "login_events (snd (resendVerificationEmail env now e st)) = login_events st"
  "login_events (snd (verifyEmail env now tok st)) = login_events st"
  "login_events (snd (refreshTokens env now rtok st)) = login_events st"
  "login_events (snd (forgotPassword env now e st)) = login_events st"
  "login_events (snd (resetPassword env now tok newPassword st)) = login_events st"
  by (auto simp: login_def googleLogin_def signUp_def resendVerificationEmail_def verifyEmail_def
      verifyEmail_try_def refreshTokens_def refreshTokens_try_def forgotPassword_def
      resetPassword_def recordLoginEvent_events bcrypt_compare_def Let_def save_new_def
      split: list.splits option.splits prod.splits if_splits)

text \<open>
  For a token and an expiry written by \<^verbatim>\<open>forgotPassword\<close> at the time \<open>issued\<close>:
  while \<^verbatim>\<open>jwt.verify\<close> accepts the token, the stored expiry lies strictly after the
  current time, so the test of \<^verbatim>\<open>resetPassword\<close> on the stored expiry cannot fail
  first.
\<close>

lemma reset_token_valid_before_stored_expiry:
  "jwt_verify (jwt_sign payload secret 3600 issued) secret now = Some d \<Longrightarrow>
     \<not> expiry_passed (Some (issued + 60 * 60 * 1000)) now \<and> now < issued + 60 * 60 * 1000"
  by (auto simp: jwt_sign_def expiry_passed_def split: if_splits)

text \<open>
  When \<^verbatim>\<open>findUserByEmail\<close> finds a user who is not Active or who has a password
  hash, the credentials login appends exactly one login event, for that user, marked
  successful exactly when the login issues tokens.
\<close>

lemma login_records_one_event_when_compare_answers:
  assumes "findUserByEmail (Some (li_email loginInfo)) (users st) = userInfo # others"
    and "status userInfo \<noteq> Active \<or> password userInfo = Some h"
  shows "\<exists>ev. login_events (snd (login env now loginInfo req st)) = login_events st @ [ev]
             \<and> userId ev = uid userInfo \<and> loginMethod ev = ''credentials'' \<and> timestamp ev = now
             \<and> (successful ev \<longleftrightarrow>
                  (\<exists>a r u. fst (login env now loginInfo req st) =
                             Inr (Success ''Login successful'' (LoginData a r u))))"
proof (cases "status userInfo")
  case Active
  with assms show ?thesis
    by (simp add: login_def bcrypt_compare_def recordLoginEvent_events Let_def split: prod.splits)
next
  case Unverified
  with assms(1) show ?thesis by (simp add: login_def recordLoginEvent_events)
next
  case Inactive
  with assms(1) show ?thesis by (simp add: login_def recordLoginEvent_events)
qed

section \<open>Credentials login and the audit log\<close>

text \<open>
  Claim C8. A credentials login against a user whose status is Unverified, with any
  password, returns the success response \<^verbatim>\<open>Account not verified\<close> that carries the
  email of the user and nothing else, and appends exactly one login event, with
  \<^verbatim>\<open>successful = false\<close> and the reason \<^verbatim>\<open>Account not verified\<close>; the users are
  left as they were. The password is a free part of \<open>loginInfo\<close>: the branch is taken
  before the password is compared.
\<close>

theorem login_unverified_soft_success:
  assumes "findUserByEmail (Some (li_email loginInfo)) (users st) = userInfo # others"
    and "status userInfo = Unverified"
  shows "fst (login env now loginInfo req st) =
           Inr (Success ''Account not verified'' (EmailData (email userInfo)))
         \<and> (\<exists>ev. login_events (snd (login env now loginInfo req st)) = login_events st @ [ev]
                \<and> userId ev = uid userInfo \<and> loginMethod ev = ''credentials''
                \<and> \<not> successful ev \<and> failureReason ev = Some ''Account not verified'')
         \<and> users (snd (login env now loginInfo req st)) = users st"
  using assms by (simp add: login_def recordLoginEvent_events recordLoginEvent_users)

theorem login_unverified_soft_success_witness:
  "findUserByEmail (Some (li_email alice_login)) (users (demo_state [alice])) = [alice]
   \<and> status alice = Unverified
   \<and> fst (login demo_env 5000 (alice_login\<lparr>li_password := ''wrong''\<rparr>) None (demo_state [alice])) =
       Inr (Success ''Account not verified'' (EmailData ''a@x.com''))
   \<and> length (login_events (snd (login demo_env 5000 (alice_login\<lparr>li_password := ''wrong''\<rparr>) None
                                (demo_state [alice])))) = 1"
proof -
  have h1: "findUserByEmail (Some (li_email (alice_login\<lparr>li_password := ''wrong''\<rparr>)))
              (users (demo_state [alice])) = alice # []"
    by (simp add: findUserByEmail_def matches_def alice_login_def demo_state_def alice_def)
  have h2: "status alice = Unverified" by (simp add: alice_def)
  from login_unverified_soft_success [OF h1 h2, of demo_env 5000 None] h1 h2
  show ?thesis by (auto simp: alice_def alice_login_def demo_state_def)
qed

text \<open>
  Claim C5. The claim is that every credentials login that finds a user creates exactly
  one login event, on every branch. The branches for an Inactive user, an Unverified user,
  a wrong password and a success each call \<^verbatim>\<open>recordLoginEvent\<close> once
  (\<open>login_records_one_event_when_compare_answers\<close>). A fifth way out has no such call:
  for an Active user without a password hash \<^verbatim>\<open>bcrypt.compare\<close> rejects, and the
  login ends with that error before any event is recorded. Such a user arises from
  \<^verbatim>\<open>googleLogin\<close> followed by \<^verbatim>\<open>resendVerificationEmail\<close> and
  \<^verbatim>\<open>verifyEmail\<close>; the only event in the table is the one of the federated login.
\<close>

theorem login_passwordless_user_no_audit_record:
  "findUserByEmail (Some (li_email federated_login)) (users federated_state) =
     [\<lparr>uid = ''u9'', email = ''g@x.com'', password = None, role = User, status = Active,
       email_verification_token = Some (generateEmailToken demo_env 2000 ''g@x.com''),
       reset_pass_token = None, reset_pass_token_expiry = None, last_login = Some 1000,
       email_consent = False, sms_consent = False, profile = None\<rparr>]
   \<and> login_events federated_state =
       [\<lparr>userId = ''u9'', timestamp = 1000, ipAddress = None, userAgent = None,
         deviceInfo = None, loginMethod = ''google'', successful = True, failureReason = None\<rparr>]
   \<and> login demo_env 4000 federated_login None federated_state =
       (Inl (RuntimeError ''Illegal arguments: string, object''), federated_state)
   \<and> login_events (snd (login demo_env 4000 federated_login None federated_state)) =
       login_events federated_state"
  by (simp add: service_defs demo_defs Let_def)

section \<open>Inactive users\<close>

text \<open>
  Claim C2. The claim is that no login, with credentials or through
  \<^verbatim>\<open>googleLogin\<close>, issues tokens to a user whose status is Inactive. The credentials
  login refuses such a user with \<^verbatim>\<open>Account Restricted!\<close>; \<^verbatim>\<open>googleLogin\<close> never
  reads the status, and for the same Inactive user it answers \<^verbatim>\<open>Login successful\<close>
  with an access token and a refresh token.
\<close>

theorem googleLogin_inactive_issues_tokens:
  "status (alice\<lparr>status := Inactive\<rparr>) = Inactive
   \<and> fst (login demo_env 5000 alice_login None (demo_state [alice\<lparr>status := Inactive\<rparr>])) =
       Inl (BadRequest ''Account Restricted!'')
   \<and> fst (googleLogin demo_env 5000 ''u2'' \<lparr>g_email = ''a@x.com''\<rparr> None
            (demo_state [alice\<lparr>status := Inactive\<rparr>])) =
       Inr (Success ''Login successful''
             (LoginData (fst (getTokens demo_env 5000 ''u1'' User))
                        (snd (getTokens demo_env 5000 ''u1'' User))
                        (alice\<lparr>status := Inactive, last_login := Some 5000, password := None\<rparr>)))"
  by (simp add: service_defs demo_defs Let_def)

section \<open>Refreshing tokens\<close>




section \<open>Email verification\<close>

text \<open>
  Claim C4, as stated, fails. The claim is that \<^verbatim>\<open>verifyEmail\<close> accepts a token only
  if it equals the verification token stored on the user, so that a token is rejected once
  \<^verbatim>\<open>resendVerificationEmail\<close> has overwritten the stored one. Here alice holds
  \<open>old_email_token\<close>; a resend stores a different token; presenting the old token
  afterwards is accepted and makes her Active.
\<close>

theorem verifyEmail_stale_token_counterexample:
  "email_verification_token
     (hd (users (snd (resendVerificationEmail demo_env 5000000 ''a@x.com''
                        (demo_state [alice\<lparr>email_verification_token := Some old_email_token\<rparr>])))))
     = Some (generateEmailToken demo_env 5000000 ''a@x.com'')
   \<and> generateEmailToken demo_env 5000000 ''a@x.com'' \<noteq> old_email_token
   \<and> fst (verifyEmail demo_env 6000000 old_email_token
            (snd (resendVerificationEmail demo_env 5000000 ''a@x.com''
                    (demo_state [alice\<lparr>email_verification_token := Some old_email_token\<rparr>])))) =
       Inr (Success ''Email verified successfully'' NoData)
   \<and> status (hd (users (snd (verifyEmail demo_env 6000000 old_email_token
            (snd (resendVerificationEmail demo_env 5000000 ''a@x.com''
                    (demo_state [alice\<lparr>email_verification_token := Some old_email_token\<rparr>]))))))) = Active"
  by (simp add: service_defs demo_defs Let_def)

text \<open>
  Claim C4, amended. \<^verbatim>\<open>verifyEmail\<close> accepts a token exactly when \<^verbatim>\<open>jwt.verify\<close>
  accepts it (signed with the secret, not expired) and \<^verbatim>\<open>findUserByEmail\<close> finds a
  user for its email. The verification token stored on the user is not read: replacing
  the stored tokens of all users by any others leaves the outcome as it is.
\<close>

theorem verifyEmail_ignores_stored_token:
  "(fst (verifyEmail env now tok st) = Inr (Success ''Email verified successfully'' NoData)
      \<longleftrightarrow> (\<exists>payload. jwt_verify tok (jwt_secret env) now = Some payload
             \<and> findUserByEmail (c_email payload) (users st) \<noteq> []))
   \<and> fst (verifyEmail env now tok
            (st\<lparr>users := map (\<lambda>u. u\<lparr>email_verification_token := stored u\<rparr>) (users st)\<rparr>)) =
       fst (verifyEmail env now tok st)"
  by (auto simp: verifyEmail_def verifyEmail_try_def verifyEmailToken_def findUserByEmail_def
      filter_map comp_def split: option.splits list.splits)

theorem verifyEmail_ignores_stored_token_witness:
  "fst (verifyEmail demo_env 5000 old_email_token
          (demo_state [alice]\<lparr>users := map (\<lambda>u. u\<lparr>email_verification_token := None\<rparr>)
                                         (users (demo_state [alice]))\<rparr>)) =
     Inr (Success ''Email verified successfully'' NoData)"
proof -
  have "fst (verifyEmail demo_env 5000 old_email_token (demo_state [alice])) =
          Inr (Success ''Email verified successfully'' NoData)"
    by (simp add: service_defs demo_defs Let_def)
  with verifyEmail_ignores_stored_token [of demo_env 5000 old_email_token "demo_state [alice]" "\<lambda>u. None"]
  show ?thesis by simp
qed

text \<open>
  Claim C6. The claim is that a token that decodes, with an email that matches no user,
  fails with NotFound, a kind distinct from the one for invalid or expired tokens. The
  \<^verbatim>\<open>try\<close> block does throw \<^verbatim>\<open>NotFoundException\<close> for such a token, and the
  \<^verbatim>\<open>catch\<close> of \<^verbatim>\<open>verifyEmail\<close> replaces it: the caller gets the bad-request
  exception \<^verbatim>\<open>Invalid or expired email verification token.\<close>
\<close>

theorem verifyEmail_unknown_email_not_NotFound:
  "verifyEmailToken demo_env 5000 stranger_email_token =
     Some \<lparr>c_sub = None, c_role = None, c_email = Some ''nobody@x.com'', c_id = None,
           c_exp = Some 86401\<rparr>
   \<and> findUserByEmail (Some ''nobody@x.com'') (users (demo_state [alice])) = []
   \<and> fst (verifyEmail_try demo_env 5000 stranger_email_token (demo_state [alice])) =
       Inl (NotFound ''User with this email does not exist'')
   \<and> fst (verifyEmail demo_env 5000 stranger_email_token (demo_state [alice])) =
       Inl (BadRequest ''Invalid or expired email verification token.'')"
  by (simp add: service_defs demo_defs Let_def)

section \<open>Password reset\<close>

text \<open>
  Claim C3. \<^verbatim>\<open>resetPassword\<close> succeeds exactly when the three conditions hold:
  \<^verbatim>\<open>jwt.verify\<close> accepts the token (signature and expiry); the matching user record,
  the one \<^verbatim>\<open>findOne\<close> returns for the id of the token and the token string, stores
  that token string; and the expiry stored on that record has not passed, which is the
  test of the code, \<^verbatim>\<open>reset_pass_token_expiry < new Date()\<close> being false (by
  \<open>reset_token_valid_before_stored_expiry\<close>, an expiry that \<^verbatim>\<open>forgotPassword\<close>
  stored is then strictly in the future). In every other case the operation fails with
  \<^verbatim>\<open>Invalid or expired token.\<close> and the state, so every stored password hash, is as
  before.
\<close>

theorem resetPassword_succeeds_iff:
  "(fst (resetPassword env now tok newPassword st) = Inr (Success ''Password reset successful.'' NoData)
      \<longleftrightarrow> (\<exists>decoded u. jwt_verify tok (jwt_secret env) now = Some decoded
             \<and> findOne_reset tok (c_id decoded) (users st) = Some u
             \<and> reset_pass_token u = Some tok
             \<and> \<not> expiry_passed (reset_pass_token_expiry u) now))
   \<and> (fst (resetPassword env now tok newPassword st) \<noteq> Inr (Success ''Password reset successful.'' NoData)
      \<longrightarrow> resetPassword env now tok newPassword st = (Inl (BadRequest ''Invalid or expired token.''), st))"
  by (auto simp: resetPassword_def Let_def dest: findOne_reset_Some split: option.splits)

theorem resetPassword_succeeds_iff_witness:
  "fst (resetPassword demo_env 2000 reset_token ''N3w-pass'' reset_state) =
     Inr (Success ''Password reset successful.'' NoData)
   \<and> jwt_verify reset_token (jwt_secret demo_env) 2000 \<noteq> None
   \<and> fst (resetPassword demo_env 3601000 reset_token ''N3w-pass'' reset_state) \<noteq>
       Inr (Success ''Password reset successful.'' NoData)
   \<and> resetPassword demo_env 3601000 reset_token ''N3w-pass'' reset_state =
       (Inl (BadRequest ''Invalid or expired token.''), reset_state)"
proof -
  have ok: "fst (resetPassword demo_env 2000 reset_token ''N3w-pass'' reset_state) =
     Inr (Success ''Password reset successful.'' NoData)"
    by (simp add: service_defs demo_defs Let_def)
  have v: "jwt_verify reset_token (jwt_secret demo_env) 2000 \<noteq> None"
    using resetPassword_succeeds_iff [of demo_env 2000 reset_token "''N3w-pass''" reset_state] ok
    by auto
  have late: "fst (resetPassword demo_env 3601000 reset_token ''N3w-pass'' reset_state) \<noteq>
       Inr (Success ''Password reset successful.'' NoData)"
    by (simp add: service_defs demo_defs Let_def)
  from resetPassword_succeeds_iff [of demo_env 3601000 reset_token "''N3w-pass''" reset_state] late
  have "resetPassword demo_env 3601000 reset_token ''N3w-pass'' reset_state =
       (Inl (BadRequest ''Invalid or expired token.''), reset_state)"
    by blast
  with ok v late show ?thesis by simp
qed

text \<open>
  Claim C9. After \<^verbatim>\<open>resetPassword\<close> has succeeded with a reset token, a token that
  carries the \<^verbatim>\<open>id\<close> claim that \<^verbatim>\<open>forgotPassword\<close> writes, the stored reset token
  and its expiry are cleared on the user of that id, and presenting the same token again,
  at any time and with any new password, fails with \<^verbatim>\<open>Invalid or expired token.\<close>
  and changes nothing.
\<close>

theorem resetPassword_single_use:
  assumes ok: "fst (resetPassword env now tok newPassword st) = Inr r"
    and tok: "tok = Jwt c k" and cid: "c_id c = Some i"
  shows "(\<forall>u \<in> set (users (snd (resetPassword env now tok newPassword st))).
            uid u = i \<longrightarrow> reset_pass_token u = None \<and> reset_pass_token_expiry u = None)
         \<and> resetPassword env now' tok newPassword' (snd (resetPassword env now tok newPassword st)) =
             (Inl (BadRequest ''Invalid or expired token.''), snd (resetPassword env now tok newPassword st))"
proof -
  from ok obtain d u where d: "jwt_verify tok (jwt_secret env) now = Some d"
    and u: "findOne_reset tok (c_id d) (users st) = Some u"
    and st': "snd (resetPassword env now tok newPassword st) =
                st\<lparr>users := save_existing (u\<lparr>password := Some (hashPassword env newPassword),
                     reset_pass_token := None, reset_pass_token_expiry := None\<rparr>) (users st)\<rparr>"
    by (auto simp: resetPassword_def Let_def split: option.splits if_splits)
  from d tok have "d = c" using jwt_verify_Some [of tok "jwt_secret env" now d] by simp
  with u cid have ui: "uid u = i"
    by (auto dest!: findOne_reset_Some simp: matches_def)
  let ?us = "users (snd (resetPassword env now tok newPassword st))"
  have cleared: "\<forall>r \<in> set ?us. uid r = i \<longrightarrow> reset_pass_token r = None \<and> reset_pass_token_expiry r = None"
    using ui by (auto simp: st' save_existing_def)
  then have none: "findOne_reset tok (Some i) ?us = None"
    by (auto simp: findOne_reset_def find_None_iff matches_def)
  have "resetPassword env now' tok newPassword' (snd (resetPassword env now tok newPassword st)) =
          (Inl (BadRequest ''Invalid or expired token.''), snd (resetPassword env now tok newPassword st))"
  proof (cases "jwt_verify tok (jwt_secret env) now'")
    case None
    then show ?thesis by (simp add: resetPassword_def)
  next
    case (Some d')
    with tok have "d' = c" using jwt_verify_Some [of tok "jwt_secret env" now' d'] by simp
    with Some none cid show ?thesis by (simp add: resetPassword_def)
  qed
  with cleared show ?thesis by blast
qed

theorem resetPassword_single_use_witness:
  "fst (resetPassword demo_env 2000 reset_token ''N3w-pass'' reset_state) =
     Inr (Success ''Password reset successful.'' NoData)
   \<and> users (snd (resetPassword demo_env 2000 reset_token ''N3w-pass'' reset_state)) =
       [alice\<lparr>password := Some ''hash:N3w-pass''\<rparr>]
   \<and> resetPassword demo_env 3000 reset_token ''0ther-pass''
       (snd (resetPassword demo_env 2000 reset_token ''N3w-pass'' reset_state)) =
       (Inl (BadRequest ''Invalid or expired token.''),
        snd (resetPassword demo_env 2000 reset_token ''N3w-pass'' reset_state))"
proof -
  have ok: "fst (resetPassword demo_env 2000 reset_token ''N3w-pass'' reset_state) =
     Inr (Success ''Password reset successful.'' NoData)"
    by (simp add: service_defs demo_defs Let_def)
  have tok: "reset_token =
     Jwt \<lparr>c_sub = None, c_role = None, c_email = None, c_id = Some ''u1'', c_exp = Some 3601\<rparr>
       ''jwt-secret''"
    by (simp add: reset_token_def jwt_sign_def)
  have cid: "c_id \<lparr>c_sub = None, c_role = None, c_email = None, c_id = Some ''u1'',
                   c_exp = Some 3601\<rparr> = Some ''u1''"
    by simp
  have us: "users (snd (resetPassword demo_env 2000 reset_token ''N3w-pass'' reset_state)) =
       [alice\<lparr>password := Some ''hash:N3w-pass''\<rparr>]"
    by (simp add: service_defs demo_defs Let_def)
  from resetPassword_single_use [OF ok tok cid, of 3000 "''0ther-pass''"] ok us
  show ?thesis by simp
qed

section \<open>Signup\<close>

lemma signUp_no_password:
  "returned_user (fst (signUp env now new_id signupUserDto userRole st)) = Some u \<Longrightarrow> password u = None"
  by (auto simp: signUp_def Let_def save_new_def split: if_splits)

lemma login_no_password:
  "returned_user (fst (login env now loginInfo req st)) = Some u \<Longrightarrow> password u = None"
  by (auto simp: login_def bcrypt_compare_def Let_def
      split: list.splits option.splits if_splits prod.splits)

lemma refreshTokens_no_password:
  "returned_user (fst (refreshTokens env now tok st)) = Some u \<Longrightarrow> password u = None"
  by (auto simp: refreshTokens_def refreshTokens_try_def Let_def split: option.splits if_splits prod.splits)

lemma googleLogin_no_password:
  "returned_user (fst (googleLogin env now new_id googleLoginDto req st)) = Some u \<Longrightarrow> password u = None"
  by (auto simp: googleLogin_def Let_def split: list.splits if_splits prod.splits)

lemma others_return_no_user:
  "returned_user (fst (resendVerificationEmail env now e st)) = None"
  "returned_user (fst (verifyEmail env now tok st)) = None"
  "returned_user (fst (forgotPassword env now e st)) = None"
  "returned_user (fst (resetPassword env now tok newPassword st)) = None"
  by (auto simp: resendVerificationEmail_def verifyEmail_def verifyEmail_try_def
      forgotPassword_def resetPassword_def Let_def split: list.splits option.splits if_splits)

text \<open>
  Claim C7. A signup with an email that is not registered yet, whose verification mail
  is sent, returns the created user with the status Unverified, with the verification
  token just issued for the email (a token that \<^verbatim>\<open>jwt.verify\<close> accepts, not an empty
  string) and without a password. No operation returns a user with a password:
  \<^verbatim>\<open>signUp\<close>, \<^verbatim>\<open>login\<close>, \<^verbatim>\<open>refreshTokens\<close> and \<^verbatim>\<open>googleLogin\<close> delete it
  from the user they return, and the other four operations return no user.
\<close>

theorem signUp_returns_unverified_user_without_password:
  assumes fresh: "findUserByEmail (Some (su_email signupUserDto)) (users st) = []"
    and sent: "sendVerificationEmail_ok env (su_email signupUserDto)
                 (generateEmailToken env now (su_email signupUserDto))"
  shows "(\<exists>u. fst (signUp env now new_id signupUserDto userRole st) =
               Inr (Success ''User created successfully'' (UserData u))
            \<and> email u = su_email signupUserDto
            \<and> status u = Unverified
            \<and> email_verification_token u = Some (generateEmailToken env now (su_email signupUserDto))
            \<and> generateEmailToken env now (su_email signupUserDto) \<noteq> Opaque []
            \<and> verifyEmailToken env now (generateEmailToken env now (su_email signupUserDto)) \<noteq> None
            \<and> password u = None)
       \<and> (\<forall>v. returned_user (fst (signUp env' now' new_id' signupUserDto' userRole' st')) = Some v
               \<longrightarrow> password v = None)
       \<and> (\<forall>v. returned_user (fst (login env' now' loginInfo req st')) = Some v
               \<longrightarrow> password v = None)
       \<and> (\<forall>v. returned_user (fst (refreshTokens env' now' rtok st')) = Some v
               \<longrightarrow> password v = None)
       \<and> (\<forall>v. returned_user (fst (googleLogin env' now' new_id' googleLoginDto req st')) = Some v
               \<longrightarrow> password v = None)
       \<and> returned_user (fst (resendVerificationEmail env' now' e st')) = None
       \<and> returned_user (fst (verifyEmail env' now' tok st')) = None
       \<and> returned_user (fst (forgotPassword env' now' e st')) = None
       \<and> returned_user (fst (resetPassword env' now' tok newPassword st')) = None"
proof -
  have "\<exists>u. fst (signUp env now new_id signupUserDto userRole st) =
               Inr (Success ''User created successfully'' (UserData u))
            \<and> email u = su_email signupUserDto
            \<and> status u = Unverified
            \<and> email_verification_token u = Some (generateEmailToken env now (su_email signupUserDto))
            \<and> generateEmailToken env now (su_email signupUserDto) \<noteq> Opaque []
            \<and> verifyEmailToken env now (generateEmailToken env now (su_email signupUserDto)) \<noteq> None
            \<and> password u = None"
    using assms
    by (simp add: signUp_def Let_def save_new_def default_status_def generateEmailToken_valid)
       (simp add: generateEmailToken_def jwt_sign_def)
  then show ?thesis
    using signUp_no_password login_no_password refreshTokens_no_password googleLogin_no_password
    by (simp add: others_return_no_user)
qed

theorem signUp_returns_unverified_user_without_password_witness:
  "findUserByEmail (Some (su_email demo_signup)) (users (demo_state [alice])) = []
   \<and> sendVerificationEmail_ok demo_env (su_email demo_signup)
       (generateEmailToken demo_env 5000 (su_email demo_signup))
   \<and> map_option status
       (returned_user (fst (signUp demo_env 5000 ''u2'' demo_signup User (demo_state [alice])))) =
       Some Unverified
   \<and> map_option password
       (returned_user (fst (signUp demo_env 5000 ''u2'' demo_signup User (demo_state [alice])))) =
       Some None
   \<and> map_option password
       (returned_user (fst (login demo_env 5000 alice_login None
                              (demo_state [alice\<lparr>status := Active\<rparr>])))) = Some None"
proof -
  have fresh: "findUserByEmail (Some (su_email demo_signup)) (users (demo_state [alice])) = []"
    by (simp add: service_defs demo_defs)
  have sent: "sendVerificationEmail_ok demo_env (su_email demo_signup)
       (generateEmailToken demo_env 5000 (su_email demo_signup))"
    by (simp add: demo_env_def)
  have lg: "returned_user (fst (login demo_env 5000 alice_login None
                              (demo_state [alice\<lparr>status := Active\<rparr>]))) =
              Some (alice\<lparr>status := Active, last_login := Some 5000, password := None\<rparr>)"
    by (simp add: service_defs demo_defs Let_def)
  from signUp_returns_unverified_user_without_password [OF fresh sent, of "''u2''" User]
  obtain u where "fst (signUp demo_env 5000 ''u2'' demo_signup User (demo_state [alice])) =
               Inr (Success ''User created successfully'' (UserData u))"
    and "status u = Unverified" and "password u = None"
    by blast
  with fresh sent lg show ?thesis by simp
qed

text \<open>
  Claim C10. In a signup with a fresh email, a failure of the CRM call
  \<^verbatim>\<open>createContact\<close> is swallowed: the user is stored, with the password hash, and
  returned, and no contact is recorded. A failure of the verification mail, which is sent
  before \<^verbatim>\<open>userRepo.save\<close>, makes the signup fail and leaves the state as it was,
  so no user is stored.
\<close>

theorem signUp_collaborator_failures:
  assumes fresh: "findUserByEmail (Some (su_email signupUserDto)) (users st) = []"
  shows "(sendVerificationEmail_ok env (su_email signupUserDto)
            (generateEmailToken env now (su_email signupUserDto)) \<and> \<not> createContact_ok env signupUserDto
          \<longrightarrow> (\<exists>u. fst (signUp env now new_id signupUserDto userRole st) =
                      Inr (Success ''User created successfully'' (UserData u))
                   \<and> uid u = new_id \<and> email u = su_email signupUserDto
                   \<and> users (snd (signUp env now new_id signupUserDto userRole st)) =
                       users st @ [u\<lparr>password := Some (hashPassword env (su_password signupUserDto))\<rparr>]
                   \<and> contacts (snd (signUp env now new_id signupUserDto userRole st)) = contacts st))
       \<and> (\<not> sendVerificationEmail_ok env (su_email signupUserDto)
              (generateEmailToken env now (su_email signupUserDto))
          \<longrightarrow> (\<exists>err. fst (signUp env now new_id signupUserDto userRole st) = Inl err)
              \<and> snd (signUp env now new_id signupUserDto userRole st) = st)"
  using assms by (simp add: signUp_def Let_def save_new_def)

theorem signUp_collaborator_failures_witness:
  "findUserByEmail (Some (su_email demo_signup)) (users (demo_state [alice])) = []
   \<and> \<not> createContact_ok (demo_env\<lparr>createContact_ok := \<lambda>d. False\<rparr>) demo_signup
   \<and> map email (users (snd (signUp (demo_env\<lparr>createContact_ok := \<lambda>d. False\<rparr>) 5000 ''u2''
                                demo_signup User (demo_state [alice])))) = [''a@x.com'', ''b@x.com'']
   \<and> \<not> sendVerificationEmail_ok (demo_env\<lparr>sendVerificationEmail_ok := \<lambda>e t. False\<rparr>)
          (su_email demo_signup)
          (generateEmailToken (demo_env\<lparr>sendVerificationEmail_ok := \<lambda>e t. False\<rparr>) 5000
             (su_email demo_signup))
   \<and> snd (signUp (demo_env\<lparr>sendVerificationEmail_ok := \<lambda>e t. False\<rparr>) 5000 ''u2''
             demo_signup User (demo_state [alice])) = demo_state [alice]"
proof -
  have fresh: "findUserByEmail (Some (su_email demo_signup)) (users (demo_state [alice])) = []"
    by (simp add: service_defs demo_defs)
  have sent: "sendVerificationEmail_ok (demo_env\<lparr>createContact_ok := \<lambda>d. False\<rparr>)
                (su_email demo_signup)
                (generateEmailToken (demo_env\<lparr>createContact_ok := \<lambda>d. False\<rparr>) 5000
                   (su_email demo_signup))"
    by (simp add: demo_env_def)
  have nocrm: "\<not> createContact_ok (demo_env\<lparr>createContact_ok := \<lambda>d. False\<rparr>) demo_signup"
    by simp
  have nomail: "\<not> sendVerificationEmail_ok (demo_env\<lparr>sendVerificationEmail_ok := \<lambda>e t. False\<rparr>)
          (su_email demo_signup)
          (generateEmailToken (demo_env\<lparr>sendVerificationEmail_ok := \<lambda>e t. False\<rparr>) 5000
             (su_email demo_signup))"
    by simp
  from signUp_collaborator_failures [OF fresh, of "demo_env\<lparr>createContact_ok := \<lambda>d. False\<rparr>" 5000
      "''u2''" User] sent nocrm
  obtain u where "email u = su_email demo_signup"
    and "users (snd (signUp (demo_env\<lparr>createContact_ok := \<lambda>d. False\<rparr>) 5000 ''u2''
                       demo_signup User (demo_state [alice]))) =
           users (demo_state [alice]) @
             [u\<lparr>password := Some (hashPassword (demo_env\<lparr>createContact_ok := \<lambda>d. False\<rparr>)
                                    (su_password demo_signup))\<rparr>]"
    by blast
  then have a: "map email (users (snd (signUp (demo_env\<lparr>createContact_ok := \<lambda>d. False\<rparr>) 5000 ''u2''
                                demo_signup User (demo_state [alice])))) = [''a@x.com'', ''b@x.com'']"
    by (simp add: demo_defs)
  from signUp_collaborator_failures [OF fresh,
      of "demo_env\<lparr>sendVerificationEmail_ok := \<lambda>e t. False\<rparr>" 5000 "''u2''" User] nomail
  have b: "snd (signUp (demo_env\<lparr>sendVerificationEmail_ok := \<lambda>e t. False\<rparr>) 5000 ''u2''
             demo_signup User (demo_state [alice])) = demo_state [alice]"
    by blast
  from fresh nocrm a nomail b show ?thesis by blast
qed

end
